theory Spec2Isabelle
  imports Main "HOL-Library.Word"
begin

section \<open>Std\_Types.h: provision of standard types\<close>

text \<open>
  The header \<^verbatim>\<open>src/bswlib/Platform/Std_Types.h\<close> declares object-like macros, type
  aliases, two structs and one function-pointer type. It has no function body.

  An object-like macro whose replacement text is an unsigned integer constant
  (\<^verbatim>\<open>(30u)\<close>, \<^verbatim>\<open>1u\<close>, \<^verbatim>\<open>0xFFu\<close>) is a constant of type \<open>nat\<close>: the value of the
  literal. Every literal of the header is below \<open>2 ^ 16\<close>, so its value is the same
  whatever width the compiler gives \<^verbatim>\<open>unsigned int\<close>. Where a constant is stored in one of
  the header's fixed-width types, the conversion \<open>of_nat\<close> is written out.
  A macro whose replacement text is the name of another macro is a constant defined by
  that other constant.
\<close>

subsection \<open>Platform types\<close>

text \<open>
  Modelled from the spec: \<^verbatim>\<open>Platform_Types.h\<close>, which the header includes for \<^verbatim>\<open>uint8\<close>,
  \<^verbatim>\<open>uint16\<close> and \<^verbatim>\<open>uint32\<close>, is not among the sources. The spec calls the status code and
  the tags 8-bit values, the identifiers of the version record 16-bit and its version
  components 8-bit; the buffer length of the callback type is \<^verbatim>\<open>uint32\<close>. The three names
  are the unsigned integer types of that width.
\<close>

type_synonym uint8 = "8 word"
type_synonym uint16 = "16 word"
type_synonym uint32 = "32 word"

subsection \<open>Global constant macros (lines 63 to 102)\<close>

definition STD_TYPES_VENDOR_ID :: nat where
  "STD_TYPES_VENDOR_ID = 30"

definition STD_TYPES_MODULE_ID :: nat where
  "STD_TYPES_MODULE_ID = 197"

definition STD_VENDOR_ID :: nat where
  "STD_VENDOR_ID = STD_TYPES_VENDOR_ID"

definition STD_MODULE_ID :: nat where
  "STD_MODULE_ID = STD_TYPES_MODULE_ID"

definition STD_TYPES_AR_RELEASE_MAJOR_VERSION :: nat where
  "STD_TYPES_AR_RELEASE_MAJOR_VERSION = 4"

definition STD_TYPES_AR_RELEASE_MINOR_VERSION :: nat where
  "STD_TYPES_AR_RELEASE_MINOR_VERSION = 7"

definition STD_TYPES_AR_RELEASE_REVISION_VERSION :: nat where
  "STD_TYPES_AR_RELEASE_REVISION_VERSION = 0"

definition STD_AR_RELEASE_MAJOR_VERSION :: nat where
  "STD_AR_RELEASE_MAJOR_VERSION = STD_TYPES_AR_RELEASE_MAJOR_VERSION"

definition STD_AR_RELEASE_MINOR_VERSION :: nat where
  "STD_AR_RELEASE_MINOR_VERSION = STD_TYPES_AR_RELEASE_MINOR_VERSION"

definition STD_AR_RELEASE_REVISION_VERSION :: nat where
  "STD_AR_RELEASE_REVISION_VERSION = STD_TYPES_AR_RELEASE_REVISION_VERSION"

definition STD_TYPES_SW_MAJOR_VERSION :: nat where
  "STD_TYPES_SW_MAJOR_VERSION = 3"

definition STD_TYPES_SW_MINOR_VERSION :: nat where
  "STD_TYPES_SW_MINOR_VERSION = 6"

definition STD_TYPES_SW_PATCH_VERSION :: nat where
  "STD_TYPES_SW_PATCH_VERSION = 0"

definition STD_SW_MAJOR_VERSION :: nat where
  "STD_SW_MAJOR_VERSION = STD_TYPES_SW_MAJOR_VERSION"

definition STD_SW_MINOR_VERSION :: nat where
  "STD_SW_MINOR_VERSION = STD_TYPES_SW_MINOR_VERSION"

definition STD_SW_PATCH_VERSION :: nat where
  "STD_SW_PATCH_VERSION = STD_TYPES_SW_PATCH_VERSION"

text \<open>Physical states (5V or 3.3V, 0V), logical states (active, idle) and on/off.\<close>

definition STD_HIGH :: nat where
  "STD_HIGH = 1"

definition STD_LOW :: nat where
  "STD_LOW = 0"

definition STD_ACTIVE :: nat where
  "STD_ACTIVE = 1"

definition STD_IDLE :: nat where
  "STD_IDLE = 0"

definition STD_ON :: nat where
  "STD_ON = 1"

definition STD_OFF :: nat where
  "STD_OFF = 0"

subsection \<open>Global data types and structures (lines 111 to 164)\<close>

text \<open>
  Lines 112 to 116 define \<^verbatim>\<open>E_OK\<close> inside \<^verbatim>\<open>#ifndef STATUSTYPEDEFINED\<close>: a translation unit
  that has read an OSEK header before this one already has \<^verbatim>\<open>STATUSTYPEDEFINED\<close>, and then
  the header leaves \<^verbatim>\<open>E_OK\<close> alone. The argument says whether \<^verbatim>\<open>STATUSTYPEDEFINED\<close> is
  defined when the header is read; the result is the value the header gives \<^verbatim>\<open>E_OK\<close>, or
  \<open>None\<close> when it gives none. \<^verbatim>\<open>E_NOT_OK\<close> (line 118) stands outside the conditional.
\<close>

definition E_OK :: "bool \<Rightarrow> nat option" where
  "E_OK STATUSTYPEDEFINED = (if STATUSTYPEDEFINED then None else Some 0)"

definition E_NOT_OK :: nat where
  "E_NOT_OK = 1"

type_synonym Std_ReturnType = uint8

record Std_VersionInfoType =
  vendorID :: uint16
  moduleID :: uint16
  sw_major_version :: uint8
  sw_minor_version :: uint8
  sw_patch_version :: uint8

type_synonym Std_TransformerErrorCode = uint8

type_synonym Std_TransformerClass = uint8

definition STD_TRANSFORMER_UNSPECIFIED :: nat where
  "STD_TRANSFORMER_UNSPECIFIED = 0"

definition STD_TRANSFORMER_SERIALIZER :: nat where
  "STD_TRANSFORMER_SERIALIZER = 1"

definition STD_TRANSFORMER_SAFETY :: nat where
  "STD_TRANSFORMER_SAFETY = 2"

definition STD_TRANSFORMER_SECURITY :: nat where
  "STD_TRANSFORMER_SECURITY = 3"

definition STD_TRANSFORMER_CUSTOM :: nat where
  "STD_TRANSFORMER_CUSTOM = 0xFF"

type_synonym Std_MessageTypeType = uint8

definition STD_MESSAGETYPE_REQUEST :: nat where
  "STD_MESSAGETYPE_REQUEST = 0"

definition STD_MESSAGETYPE_RESPONSE :: nat where
  "STD_MESSAGETYPE_RESPONSE = 1"

type_synonym Std_MessageResultType = uint8

definition STD_MESSAGERESULT_OK :: nat where
  "STD_MESSAGERESULT_OK = 0"

definition STD_MESSAGERESULT_ERROR :: nat where
  "STD_MESSAGERESULT_ERROR = 1"

record Std_TransformerError =
  errorCode :: Std_TransformerErrorCode
  transformerClass :: Std_TransformerClass

section \<open>Facts shared by the proofs\<close>

lemmas version_defs =
  STD_TYPES_VENDOR_ID_def STD_TYPES_MODULE_ID_def STD_VENDOR_ID_def STD_MODULE_ID_def
  STD_TYPES_AR_RELEASE_MAJOR_VERSION_def STD_TYPES_AR_RELEASE_MINOR_VERSION_def
  STD_TYPES_AR_RELEASE_REVISION_VERSION_def STD_AR_RELEASE_MAJOR_VERSION_def
  STD_AR_RELEASE_MINOR_VERSION_def STD_AR_RELEASE_REVISION_VERSION_def
  STD_TYPES_SW_MAJOR_VERSION_def STD_TYPES_SW_MINOR_VERSION_def STD_TYPES_SW_PATCH_VERSION_def
  STD_SW_MAJOR_VERSION_def STD_SW_MINOR_VERSION_def STD_SW_PATCH_VERSION_def

lemmas level_defs =
  STD_HIGH_def STD_LOW_def STD_ACTIVE_def STD_IDLE_def STD_ON_def STD_OFF_def

lemmas transformer_class_defs =
  STD_TRANSFORMER_UNSPECIFIED_def STD_TRANSFORMER_SERIALIZER_def STD_TRANSFORMER_SAFETY_def
  STD_TRANSFORMER_SECURITY_def STD_TRANSFORMER_CUSTOM_def

lemmas message_defs =
  STD_MESSAGETYPE_REQUEST_def STD_MESSAGETYPE_RESPONSE_def STD_MESSAGERESULT_OK_def
  STD_MESSAGERESULT_ERROR_def

lemma unat_uint8_less: "unat (w :: uint8) < 256"
  using unsigned_less [of w, where ?'a = nat] by simp

lemma unat_uint16_less: "unat (w :: uint16) < 65536"
  using unsigned_less [of w, where ?'a = nat] by simp

lemma unat_uint8_max: "unat (- 1 :: uint8) = 255"
  by (simp add: unsigned_minus_1_eq_mask mask_eq_exp_minus_1)

text \<open>
  A version record is its five fields and nothing else: reading the fields in their
  declared order is one-to-one and onto the tuples of two 16-bit and three 8-bit values.
\<close>

lemma Std_VersionInfoType_bij:
  "bij (\<lambda>v :: Std_VersionInfoType.
     (vendorID v, moduleID v, sw_major_version v, sw_minor_version v, sw_patch_version v))"
proof (rule bijI)
  show "inj (\<lambda>v :: Std_VersionInfoType.
     (vendorID v, moduleID v, sw_major_version v, sw_minor_version v, sw_patch_version v))"
    by (rule injI) simp
next
  show "surj (\<lambda>v :: Std_VersionInfoType.
     (vendorID v, moduleID v, sw_major_version v, sw_minor_version v, sw_patch_version v))"
  proof (rule surjI)
    fix t :: "uint16 \<times> uint16 \<times> uint8 \<times> uint8 \<times> uint8"
    show "(\<lambda>v :: Std_VersionInfoType.
        (vendorID v, moduleID v, sw_major_version v, sw_minor_version v, sw_patch_version v))
       (case t of (a, b, c, d, e) \<Rightarrow>
          \<lparr>vendorID = a, moduleID = b, sw_major_version = c, sw_minor_version = d,
           sw_patch_version = e\<rparr>) = t"
      by (cases t) simp
  qed
qed

lemma Std_VersionInfoType_card: "card (UNIV :: Std_VersionInfoType set) = 2 ^ 56"
  using bij_betw_same_card [OF Std_VersionInfoType_bij] by (simp add: card_word)

section \<open>Status codes\<close>

text \<open>
  C1. The success status constant \<^verbatim>\<open>E_OK\<close> equals 0, the failure status constant
  \<^verbatim>\<open>E_NOT_OK\<close> equals 1, and the two are distinct. \<^verbatim>\<open>E_OK\<close> is the header's own definition
  (no \<^verbatim>\<open>STATUSTYPEDEFINED\<close> before it); with or without \<^verbatim>\<open>STATUSTYPEDEFINED\<close> the header
  never gives \<^verbatim>\<open>E_OK\<close> a value other than 0, and never the value of \<^verbatim>\<open>E_NOT_OK\<close>.
\<close>

theorem E_OK_E_NOT_OK_values:
  "E_OK False = Some 0 \<and> E_NOT_OK = 1 \<and> E_OK False \<noteq> Some E_NOT_OK
   \<and> E_OK STATUSTYPEDEFINED \<in> {None, Some 0} \<and> E_OK STATUSTYPEDEFINED \<noteq> Some E_NOT_OK"
  by (simp add: E_OK_def E_NOT_OK_def)

text \<open>
  C7. \<^verbatim>\<open>Std_ReturnType\<close> is an 8-bit unsigned value: every status code it carries lies
  in the range 0 to 255. The code for "operation succeeded", \<^verbatim>\<open>E_OK\<close>, is the value 0 of
  the type and the code for "operation failed", \<^verbatim>\<open>E_NOT_OK\<close>, is its value 1; storing
  either constant in a \<^verbatim>\<open>Std_ReturnType\<close> and reading it back gives the constant.
\<close>

theorem Std_ReturnType_range:
  "size (r :: Std_ReturnType) = 8 \<and> unat r \<in> {0..255}
   \<and> map_option of_nat (E_OK False) = Some (0 :: Std_ReturnType)
   \<and> of_nat E_NOT_OK = (1 :: Std_ReturnType)
   \<and> map_option unat (map_option of_nat (E_OK False) :: Std_ReturnType option) = E_OK False
   \<and> unat (of_nat E_NOT_OK :: Std_ReturnType) = E_NOT_OK"
  using unat_uint8_less [of r] by (simp add: word_size E_OK_def E_NOT_OK_def)

section \<open>Version information\<close>

text \<open>
  C2. A \<^verbatim>\<open>Std_VersionInfoType\<close> value built from five field values, by an initialiser or
  by assigning the five fields of any earlier value \<open>v0\<close>, gives each of the five values
  back when its fields are read. In particular vendor 30, module 197, major 3, minor 6
  and patch 0 are read back unchanged, also when they are taken from the header's own
  constants \<^verbatim>\<open>STD_VENDOR_ID\<close>, \<^verbatim>\<open>STD_MODULE_ID\<close> and \<^verbatim>\<open>STD_SW_*_VERSION\<close>.
\<close>

theorem Std_VersionInfoType_roundtrip:
  "vendorID \<lparr>vendorID = a, moduleID = b, sw_major_version = c, sw_minor_version = d,
      sw_patch_version = e\<rparr> = a
   \<and> moduleID \<lparr>vendorID = a, moduleID = b, sw_major_version = c, sw_minor_version = d,
      sw_patch_version = e\<rparr> = b
   \<and> sw_major_version \<lparr>vendorID = a, moduleID = b, sw_major_version = c,
      sw_minor_version = d, sw_patch_version = e\<rparr> = c
   \<and> sw_minor_version \<lparr>vendorID = a, moduleID = b, sw_major_version = c,
      sw_minor_version = d, sw_patch_version = e\<rparr> = d
   \<and> sw_patch_version \<lparr>vendorID = a, moduleID = b, sw_major_version = c,
      sw_minor_version = d, sw_patch_version = e\<rparr> = e
   \<and> v0\<lparr>vendorID := a, moduleID := b, sw_major_version := c, sw_minor_version := d,
      sw_patch_version := e\<rparr>
     = \<lparr>vendorID = a, moduleID = b, sw_major_version = c, sw_minor_version = d,
      sw_patch_version = e\<rparr>
   \<and> (let v = \<lparr>vendorID = 30, moduleID = 197, sw_major_version = 3, sw_minor_version = 6,
               sw_patch_version = 0\<rparr>
      in vendorID v = 30 \<and> moduleID v = 197 \<and> sw_major_version v = 3
         \<and> sw_minor_version v = 6 \<and> sw_patch_version v = 0)
   \<and> (let v = \<lparr>vendorID = of_nat STD_VENDOR_ID, moduleID = of_nat STD_MODULE_ID,
               sw_major_version = of_nat STD_SW_MAJOR_VERSION,
               sw_minor_version = of_nat STD_SW_MINOR_VERSION,
               sw_patch_version = of_nat STD_SW_PATCH_VERSION\<rparr>
      in unat (vendorID v) = 30 \<and> unat (moduleID v) = 197 \<and> unat (sw_major_version v) = 3
         \<and> unat (sw_minor_version v) = 6 \<and> unat (sw_patch_version v) = 0)"
  by (simp add: version_defs)

text \<open>
  C6. \<^verbatim>\<open>Std_VersionInfoType\<close> has exactly five fields, in the order \<^verbatim>\<open>vendorID\<close>,
  \<^verbatim>\<open>moduleID\<close>, \<^verbatim>\<open>sw_major_version\<close>, \<^verbatim>\<open>sw_minor_version\<close>, \<^verbatim>\<open>sw_patch_version\<close>; the first
  two are 16-bit unsigned and the last three 8-bit unsigned. Reading the five fields in
  that order is a bijection between the records and the tuples of two 16-bit and three
  8-bit values, a record is rebuilt from its five fields, each field has its width, and
  there are as many records as \<open>16 + 16 + 8 + 8 + 8\<close> bits have values.
\<close>

theorem Std_VersionInfoType_fields:
  "bij (\<lambda>v :: Std_VersionInfoType.
     (vendorID v, moduleID v, sw_major_version v, sw_minor_version v, sw_patch_version v))
   \<and> \<lparr>vendorID = vendorID v, moduleID = moduleID v, sw_major_version = sw_major_version v,
       sw_minor_version = sw_minor_version v, sw_patch_version = sw_patch_version v\<rparr>
      = (v :: Std_VersionInfoType)
   \<and> size (vendorID v) = 16 \<and> size (moduleID v) = 16
   \<and> size (sw_major_version v) = 8 \<and> size (sw_minor_version v) = 8
   \<and> size (sw_patch_version v) = 8
   \<and> unat (vendorID v) < 2 ^ 16 \<and> unat (moduleID v) < 2 ^ 16
   \<and> unat (sw_major_version v) < 2 ^ 8 \<and> unat (sw_minor_version v) < 2 ^ 8
   \<and> unat (sw_patch_version v) < 2 ^ 8
   \<and> card (UNIV :: Std_VersionInfoType set) = 2 ^ 16 * 2 ^ 16 * 2 ^ 8 * 2 ^ 8 * 2 ^ 8"
  using Std_VersionInfoType_bij unat_uint16_less [of "vendorID v"]
    unat_uint16_less [of "moduleID v"] unat_uint8_less [of "sw_major_version v"]
    unat_uint8_less [of "sw_minor_version v"] unat_uint8_less [of "sw_patch_version v"]
  by (simp add: word_size Std_VersionInfoType_card)

text \<open>
  C10. Every \<^verbatim>\<open>STD_\<close> alias equals its \<^verbatim>\<open>STD_TYPES_\<close> counterpart: vendor id 30, module
  id 197, AUTOSAR release 4, 7, 0 and software version 3, 6, 0.
\<close>

theorem STD_alias_constants:
  "STD_VENDOR_ID = STD_TYPES_VENDOR_ID \<and> STD_TYPES_VENDOR_ID = 30
   \<and> STD_MODULE_ID = STD_TYPES_MODULE_ID \<and> STD_TYPES_MODULE_ID = 197
   \<and> STD_AR_RELEASE_MAJOR_VERSION = STD_TYPES_AR_RELEASE_MAJOR_VERSION
   \<and> STD_TYPES_AR_RELEASE_MAJOR_VERSION = 4
   \<and> STD_AR_RELEASE_MINOR_VERSION = STD_TYPES_AR_RELEASE_MINOR_VERSION
   \<and> STD_TYPES_AR_RELEASE_MINOR_VERSION = 7
   \<and> STD_AR_RELEASE_REVISION_VERSION = STD_TYPES_AR_RELEASE_REVISION_VERSION
   \<and> STD_TYPES_AR_RELEASE_REVISION_VERSION = 0
   \<and> STD_SW_MAJOR_VERSION = STD_TYPES_SW_MAJOR_VERSION \<and> STD_TYPES_SW_MAJOR_VERSION = 3
   \<and> STD_SW_MINOR_VERSION = STD_TYPES_SW_MINOR_VERSION \<and> STD_TYPES_SW_MINOR_VERSION = 6
   \<and> STD_SW_PATCH_VERSION = STD_TYPES_SW_PATCH_VERSION \<and> STD_TYPES_SW_PATCH_VERSION = 0"
  by (simp add: version_defs)

section \<open>Level constants\<close>

text \<open>
  C4. Each pair of level constants is exactly the set of 0 and 1, the two members of a
  pair being different: \<^verbatim>\<open>STD_HIGH\<close> is 1 and \<^verbatim>\<open>STD_LOW\<close> is 0, \<^verbatim>\<open>STD_ACTIVE\<close> is 1 and
  \<^verbatim>\<open>STD_IDLE\<close> is 0, \<^verbatim>\<open>STD_ON\<close> is 1 and \<^verbatim>\<open>STD_OFF\<close> is 0.
\<close>

theorem Std_level_constants:
  "STD_HIGH = 1 \<and> STD_LOW = 0 \<and> STD_ACTIVE = 1 \<and> STD_IDLE = 0 \<and> STD_ON = 1 \<and> STD_OFF = 0
   \<and> {STD_LOW, STD_HIGH} = {0, 1} \<and> {STD_IDLE, STD_ACTIVE} = {0, 1}
   \<and> {STD_OFF, STD_ON} = {0, 1}
   \<and> STD_HIGH \<noteq> STD_LOW \<and> STD_ACTIVE \<noteq> STD_IDLE \<and> STD_ON \<noteq> STD_OFF"
  by (simp add: level_defs)

section \<open>Transformer errors and message tags\<close>

text \<open>
  C3. The five transformer-class constants are 0, 1, 2, 3 and 255 and pairwise distinct,
  as numbers and as values of the 8-bit \<^verbatim>\<open>Std_TransformerClass\<close>; the custom class is the
  largest value 8 bits hold, so no \<^verbatim>\<open>Std_TransformerClass\<close> value lies above it.
\<close>

theorem Std_TransformerClass_values:
  "STD_TRANSFORMER_UNSPECIFIED = 0 \<and> STD_TRANSFORMER_SERIALIZER = 1
   \<and> STD_TRANSFORMER_SAFETY = 2 \<and> STD_TRANSFORMER_SECURITY = 3
   \<and> STD_TRANSFORMER_CUSTOM = 255
   \<and> distinct [STD_TRANSFORMER_UNSPECIFIED, STD_TRANSFORMER_SERIALIZER,
        STD_TRANSFORMER_SAFETY, STD_TRANSFORMER_SECURITY, STD_TRANSFORMER_CUSTOM]
   \<and> distinct (map of_nat [STD_TRANSFORMER_UNSPECIFIED, STD_TRANSFORMER_SERIALIZER,
        STD_TRANSFORMER_SAFETY, STD_TRANSFORMER_SECURITY, STD_TRANSFORMER_CUSTOM]
        :: Std_TransformerClass list)
   \<and> STD_TRANSFORMER_CUSTOM = 2 ^ 8 - 1
   \<and> STD_TRANSFORMER_CUSTOM = unat (- 1 :: Std_TransformerClass)
   \<and> unat (c :: Std_TransformerClass) \<le> STD_TRANSFORMER_CUSTOM"
  using unat_uint8_less [of c] by (simp add: transformer_class_defs unat_uint8_max)

text \<open>
  C5. The message-type constants are the two-valued set of 0 and 1, request 0 and
  response 1, and the message-result constants are the two-valued set of 0 and 1, ok 0
  and error 1; the two constants of either kind differ, also as 8-bit tags.
\<close>

theorem Std_message_constants:
  "STD_MESSAGETYPE_REQUEST = 0 \<and> STD_MESSAGETYPE_RESPONSE = 1
   \<and> {STD_MESSAGETYPE_REQUEST, STD_MESSAGETYPE_RESPONSE} = {0, 1}
   \<and> STD_MESSAGETYPE_REQUEST \<noteq> STD_MESSAGETYPE_RESPONSE
   \<and> STD_MESSAGERESULT_OK = 0 \<and> STD_MESSAGERESULT_ERROR = 1
   \<and> {STD_MESSAGERESULT_OK, STD_MESSAGERESULT_ERROR} = {0, 1}
   \<and> STD_MESSAGERESULT_OK \<noteq> STD_MESSAGERESULT_ERROR
   \<and> (of_nat STD_MESSAGETYPE_REQUEST :: Std_MessageTypeType)
       \<noteq> of_nat STD_MESSAGETYPE_RESPONSE
   \<and> (of_nat STD_MESSAGERESULT_OK :: Std_MessageResultType)
       \<noteq> of_nat STD_MESSAGERESULT_ERROR"
  by (simp add: message_defs)

text \<open>
  C8. A \<^verbatim>\<open>Std_TransformerError\<close> value built from an error code and a class tag, by an
  initialiser or by assigning both fields of any earlier value \<open>e0\<close>, gives back that
  code from \<^verbatim>\<open>errorCode\<close> and that class from \<^verbatim>\<open>transformerClass\<close>. Each field is an 8-bit
  value, and the class field holds the custom tag \<^verbatim>\<open>0xFF\<close> without loss.
\<close>

theorem Std_TransformerError_roundtrip:
  "errorCode \<lparr>errorCode = c, transformerClass = k\<rparr> = c
   \<and> transformerClass \<lparr>errorCode = c, transformerClass = k\<rparr> = k
   \<and> e0\<lparr>errorCode := c, transformerClass := k\<rparr> = \<lparr>errorCode = c, transformerClass = k\<rparr>
   \<and> size (errorCode e) = 8 \<and> size (transformerClass e) = 8
   \<and> unat (errorCode e) < 2 ^ 8 \<and> unat (transformerClass e) < 2 ^ 8
   \<and> unat (transformerClass \<lparr>errorCode = c, transformerClass = of_nat STD_TRANSFORMER_CUSTOM\<rparr>)
      = STD_TRANSFORMER_CUSTOM"
  using unat_uint8_less [of "errorCode e"] unat_uint8_less [of "transformerClass e"]
  by (simp add: word_size transformer_class_defs)

end
